theory Spec2Isabelle
  imports
    Complex_Main
    "HOL-Library.Char_ord"
    "HOL-Library.List_Lexorder"
    "HOL-Library.Product_Lexorder"
begin

section \<open>Request pagination (lib/utils.js)\<close>













section \<open>The relational store\<close>

text \<open>
  Rows carry the columns that the statements of the handlers name. The time stamps
  (\<^verbatim>\<open>created_at\<close>, \<^verbatim>\<open>updated_at = NOW()\<close>) are left out. A table is the list of its rows in
  storage order; a \<^verbatim>\<open>SELECT\<close> without \<^verbatim>\<open>ORDER BY\<close> returns the matching rows in that order.
\<close>

record user =
  u_id :: int
  u_name :: string

record contact =
  c_id :: int
  c_user_id :: int
  c_name :: string
  c_is_emergency :: bool
  c_relationship :: "string option"
  c_image :: "string option"

record phone =
  p_id :: int
  p_contact_id :: int
  p_phone_number :: string
  p_phone_type :: string
  p_is_primary :: bool

record db =
  users :: "user list"
  contacts :: "contact list"
  contact_phone_numbers :: "phone list"
  contacts_id_seq :: int
  contact_phone_numbers_id_seq :: int

text \<open>
  The table declarations are not part of the sources, so what a foreign key does is a
  parameter: there may be none, one that rejects the statement (the SQL default
  \<^verbatim>\<open>NO ACTION\<close>), or one declared \<^verbatim>\<open>ON DELETE CASCADE\<close>.
\<close>

datatype fk_action = NoConstraint | NoAction | Cascade

record schema =
  contacts_user_id_fk :: fk_action
  phone_numbers_contact_id_fk :: fk_action

datatype error = Error string

text \<open>
  A computation over a state \<open>'s\<close> either returns a value or throws, and leaves a state
  behind in both cases. \<open>await\<close> sequences two of them as \<^verbatim>\<open>await\<close> does in an
  \<^verbatim>\<open>async\<close> function: a rejection skips the rest.
\<close>

type_synonym ('s, 'a) async = "'s \<Rightarrow> (error + 'a) \<times> 's"

definition return :: "'a \<Rightarrow> ('s, 'a) async" where
  "return a s = (Inr a, s)"

definition throw :: "error \<Rightarrow> ('s, 'a) async" where
  "throw e s = (Inl e, s)"

definition await :: "('s, 'a) async \<Rightarrow> ('a \<Rightarrow> ('s, 'b) async) \<Rightarrow> ('s, 'b) async" where
  "await m f s = (case m s of (Inl e, s') \<Rightarrow> (Inl e, s') | (Inr a, s') \<Rightarrow> f a s')"

text \<open>\<^verbatim>\<open>for (const x of xs) { await f(x) }\<close>\<close>

fun for_of :: "'x list \<Rightarrow> ('x \<Rightarrow> ('s, unit) async) \<Rightarrow> ('s, unit) async" where
  "for_of [] f = return ()"
| "for_of (x # xs) f = await (f x) (\<lambda>_. for_of xs f)"


subsection \<open>Statements\<close>

text \<open>\<^verbatim>\<open>SELECT ... FROM contacts WHERE id = $1\<close>\<close>

definition select_contacts_by_id :: "int \<Rightarrow> (db, contact list) async" where
  "select_contacts_by_id i d = return (filter (\<lambda>c. c_id c = i) (contacts d)) d"

text \<open>\<^verbatim>\<open>SELECT * FROM contact_phone_numbers WHERE contact_id = $1\<close>\<close>

definition select_phones_by_contact_id :: "int \<Rightarrow> (db, phone list) async" where
  "select_phones_by_contact_id cid d =
     return (filter (\<lambda>p. p_contact_id p = cid) (contact_phone_numbers d)) d"








text \<open>
  \<^verbatim>\<open>INSERT INTO contacts (user_id, name, is_emergency, relationship, image)
  VALUES ($1, $2, $3, $4, $5) RETURNING *\<close>
\<close>

definition insert_contact ::
  "schema \<Rightarrow> int \<Rightarrow> string \<Rightarrow> bool \<Rightarrow> string option \<Rightarrow> string option \<Rightarrow> (db, contact list) async"
where
  "insert_contact sch uid nm em rel img d =
     (if contacts_user_id_fk sch \<noteq> NoConstraint \<and> uid \<notin> u_id ` set (users d)
      then throw (Error ''violates foreign key constraint'') d
      else
        let row = \<lparr>c_id = contacts_id_seq d, c_user_id = uid, c_name = nm,
                   c_is_emergency = em, c_relationship = rel, c_image = img\<rparr>
        in return [row] (d\<lparr>contacts := contacts d @ [row],
                           contacts_id_seq := contacts_id_seq d + 1\<rparr>))"

text \<open>
  \<^verbatim>\<open>INSERT INTO contact_phone_numbers (contact_id, phone_number, phone_type, is_primary)
  VALUES ($1, $2, $3, $4) RETURNING *\<close>
\<close>

definition insert_phone ::
  "schema \<Rightarrow> int \<Rightarrow> string \<Rightarrow> string \<Rightarrow> bool \<Rightarrow> (db, phone list) async"
where
  "insert_phone sch cid num ty prim d =
     (if phone_numbers_contact_id_fk sch \<noteq> NoConstraint \<and> cid \<notin> c_id ` set (contacts d)
      then throw (Error ''violates foreign key constraint'') d
      else
        let row = \<lparr>p_id = contact_phone_numbers_id_seq d, p_contact_id = cid,
                   p_phone_number = num, p_phone_type = ty, p_is_primary = prim\<rparr>
        in return [row] (d\<lparr>contact_phone_numbers := contact_phone_numbers d @ [row],
                           contact_phone_numbers_id_seq := contact_phone_numbers_id_seq d + 1\<rparr>))"

text \<open>\<^verbatim>\<open>UPDATE contact_phone_numbers SET is_primary = false WHERE contact_id = $1\<close>\<close>

definition unset_primary :: "int \<Rightarrow> (db, unit) async" where
  "unset_primary cid d =
     return () (d\<lparr>contact_phone_numbers :=
                    map (\<lambda>p. if p_contact_id p = cid then p\<lparr>p_is_primary := False\<rparr> else p)
                        (contact_phone_numbers d)\<rparr>)"


text \<open>\<^verbatim>\<open>COALESCE($n, column)\<close>: the parameter when it is not null.\<close>

definition coalesce :: "'a option \<Rightarrow> 'a \<Rightarrow> 'a" where
  "coalesce param col = (case param of None \<Rightarrow> col | Some v \<Rightarrow> v)"



text \<open>
  \<^verbatim>\<open>UPDATE contacts SET name = COALESCE($1, name), is_emergency = COALESCE($2, is_emergency),
  relationship = COALESCE($3, relationship), image = COALESCE($4, image), updated_at = NOW()
  WHERE id = $5 RETURNING *\<close>
\<close>

definition patch_contact ::
  "string option \<Rightarrow> bool option \<Rightarrow> string option \<Rightarrow> string option \<Rightarrow> contact \<Rightarrow> contact"
where
  "patch_contact nm em rel img c =
     c\<lparr>c_name := coalesce nm (c_name c),
       c_is_emergency := coalesce em (c_is_emergency c),
       c_relationship := (case rel of None \<Rightarrow> c_relationship c | Some r \<Rightarrow> Some r),
       c_image := (case img of None \<Rightarrow> c_image c | Some r \<Rightarrow> Some r)\<rparr>"

definition update_contact ::
  "string option \<Rightarrow> bool option \<Rightarrow> string option \<Rightarrow> string option \<Rightarrow> int
     \<Rightarrow> (db, contact list) async"
where
  "update_contact nm em rel img i d =
     (let rows = map (\<lambda>c. if c_id c = i then patch_contact nm em rel img c else c) (contacts d)
      in return (filter (\<lambda>c. c_id c = i) rows) (d\<lparr>contacts := rows\<rparr>))"

text \<open>\<^verbatim>\<open>DELETE FROM contact_phone_numbers WHERE contact_id = $1\<close>\<close>

definition delete_phones_by_contact_id :: "int \<Rightarrow> (db, unit) async" where
  "delete_phones_by_contact_id cid d =
     return () (d\<lparr>contact_phone_numbers :=
                    filter (\<lambda>p. p_contact_id p \<noteq> cid) (contact_phone_numbers d)\<rparr>)"

text \<open>
  \<^verbatim>\<open>DELETE FROM contacts WHERE ...\<close>: what happens to the phone numbers of the deleted
  contacts is the foreign key's decision, not the statement's.
\<close>

definition delete_contacts_where :: "schema \<Rightarrow> (contact \<Rightarrow> bool) \<Rightarrow> (db, int list) async" where
  "delete_contacts_where sch P d =
     (let gone = map c_id (filter P (contacts d));
          d' = d\<lparr>contacts := filter (\<lambda>c. \<not> P c) (contacts d)\<rparr>
      in case phone_numbers_contact_id_fk sch of
           NoConstraint \<Rightarrow> return gone d'
         | NoAction \<Rightarrow>
             if \<exists>p \<in> set (contact_phone_numbers d). p_contact_id p \<in> set gone
             then throw (Error ''violates foreign key constraint'') d
             else return gone d'
         | Cascade \<Rightarrow>
             return gone
               (d'\<lparr>contact_phone_numbers :=
                     filter (\<lambda>p. p_contact_id p \<notin> set gone) (contact_phone_numbers d)\<rparr>))"

text \<open>\<^verbatim>\<open>DELETE FROM contacts WHERE id = $1\<close> and \<^verbatim>\<open>DELETE FROM contacts WHERE user_id = $1\<close>\<close>

definition delete_contact_by_id :: "schema \<Rightarrow> int \<Rightarrow> (db, int list) async" where
  "delete_contact_by_id sch i = delete_contacts_where sch (\<lambda>c. c_id c = i)"

definition delete_contacts_by_user_id :: "schema \<Rightarrow> int \<Rightarrow> (db, int list) async" where
  "delete_contacts_by_user_id sch uid = delete_contacts_where sch (\<lambda>c. c_user_id c = uid)"

text \<open>\<^verbatim>\<open>DELETE FROM users WHERE id = $1 RETURNING id\<close>\<close>

definition delete_user_by_id :: "schema \<Rightarrow> int \<Rightarrow> (db, int list) async" where
  "delete_user_by_id sch i d =
     (let gone = map u_id (filter (\<lambda>u. u_id u = i) (users d));
          d' = d\<lparr>users := filter (\<lambda>u. u_id u \<noteq> i) (users d)\<rparr>
      in if gone = [] then return [] d
         else case contacts_user_id_fk sch of
           NoConstraint \<Rightarrow> return gone d'
         | NoAction \<Rightarrow>
             if \<exists>c \<in> set (contacts d). c_user_id c = i
             then throw (Error ''violates foreign key constraint'') d
             else return gone d'
         | Cascade \<Rightarrow>
             (case delete_contacts_where sch (\<lambda>c. c_user_id c = i) d' of
                (Inl e, _) \<Rightarrow> throw e d
              | (Inr _, d'') \<Rightarrow> return gone d''))"


section \<open>The connection pool and the transaction helper (lib/db.js)\<close>

text \<open>
  What the code of a request can reach through \<^verbatim>\<open>db.query\<close>, \<^verbatim>\<open>client.query\<close> and \<^verbatim>\<open>res\<close> is
  a session: the store as the connection sees it and the response written so far (at most
  one: a second write throws and changes nothing). The world around it adds what only the
  pool and the transaction commands touch: the snapshot that an open transaction would
  restore, the number of connections checked out, and the connection-level events so far.
\<close>

datatype tx_command = BEGIN | COMMIT | ROLLBACK

datatype event = Connected | Issued tx_command | Released

record contact_with_phones =
  cw_contact :: contact
  cw_phone_numbers :: "phone list"

record page_info =
  pg_total :: int
  pg_page :: int
  pg_limit :: int
  pg_pages :: int

datatype payload =
    ContactRow contact
  | ContactWithPhones contact_with_phones
  | ContactPage "contact_with_phones list" page_info
  | PhoneRow phone
  | PhoneRows "phone list"

record response =
  status :: int
  success :: bool
  message :: string
  data :: "payload option"

record session =
  store :: db
  res :: "response option"

record world = session +
  open_transaction :: "db option"
  checked_out :: nat
  history :: "event list"

text \<open>
  Which of \<^verbatim>\<open>pool.connect()\<close> and the three transaction commands fail is a parameter.
  A command that fails throws and has no effect. Data statements fail only for a reason
  the statement itself determines (a constraint, a negative \<^verbatim>\<open>LIMIT\<close>).
\<close>

record driver =
  connect_fails :: bool
  command_fails :: "tx_command \<Rightarrow> bool"

definition pool_connect :: "driver \<Rightarrow> (world, unit) async" where
  "pool_connect drv w =
     (if connect_fails drv then throw (Error ''connection failed'') w
      else return () (w\<lparr>checked_out := checked_out w + 1, history := history w @ [Connected]\<rparr>))"

definition client_release :: "world \<Rightarrow> world" where
  "client_release w = w\<lparr>checked_out := checked_out w - 1, history := history w @ [Released]\<rparr>"

definition run_command :: "tx_command \<Rightarrow> world \<Rightarrow> world" where
  "run_command cmd w =
     (case cmd of
        BEGIN \<Rightarrow> (case open_transaction w of
                    None \<Rightarrow> w\<lparr>open_transaction := Some (store w)\<rparr>
                  | Some _ \<Rightarrow> w)
      | COMMIT \<Rightarrow> w\<lparr>open_transaction := None\<rparr>
      | ROLLBACK \<Rightarrow> (case open_transaction w of
                       None \<Rightarrow> w
                     | Some d0 \<Rightarrow> w\<lparr>store := d0, open_transaction := None\<rparr>))"

definition client_command :: "driver \<Rightarrow> tx_command \<Rightarrow> (world, unit) async" where
  "client_command drv cmd w =
     (let w' = w\<lparr>history := history w @ [Issued cmd]\<rparr>
      in if command_fails drv cmd then throw (Error ''connection error'') w'
         else return () (run_command cmd w'))"

text \<open>\<^verbatim>\<open>db.query(text, params)\<close> and \<^verbatim>\<open>client.query(text, params)\<close> for a data statement.\<close>

definition db_query :: "(db, 'a) async \<Rightarrow> ('z session_scheme, 'a) async" where
  "db_query stmt w = (case stmt (store w) of (r, d') \<Rightarrow> (r, w\<lparr>store := d'\<rparr>))"

definition client_query :: "(db, 'a) async \<Rightarrow> ('z session_scheme, 'a) async" where
  "client_query stmt = db_query stmt"

definition try_catch :: "('s, 'a) async \<Rightarrow> (error \<Rightarrow> ('s, 'a) async) \<Rightarrow> ('s, 'a) async" where
  "try_catch body handler s =
     (case body s of (Inl e, s') \<Rightarrow> handler e s' | (Inr a, s') \<Rightarrow> (Inr a, s'))"

definition try_catch_finally ::
  "('s, 'a) async \<Rightarrow> (error \<Rightarrow> ('s, 'a) async) \<Rightarrow> ('s \<Rightarrow> 's) \<Rightarrow> ('s, 'a) async"
where
  "try_catch_finally body handler final s =
     (case try_catch body handler s of (r, s') \<Rightarrow> (r, final s'))"

text \<open>
  The callback gets the client and closes over \<^verbatim>\<open>res\<close>: it runs on the session of the
  connection and cannot reach the pool.
\<close>

definition callback_input :: "world \<Rightarrow> session" where
  "callback_input w = \<lparr>store = store w, res = res w\<rparr>"

definition on_client :: "(session, 'a) async \<Rightarrow> (world, 'a) async" where
  "on_client callback w =
     (case callback (callback_input w) of (r, s') \<Rightarrow> (r, w\<lparr>store := store s', res := res s'\<rparr>))"

text \<open>The connection-level events that a run from \<open>w\<close> to \<open>w'\<close> has added.\<close>

definition new_events :: "world \<Rightarrow> world \<Rightarrow> event list" where
  "new_events w w' = drop (length (history w)) (history w')"

text \<open>
  \<^verbatim>\<open>
  async transaction(callback) {
    const client = await pool.connect();
    try {
      await client.query('BEGIN');
      const result = await callback(client);
      await client.query('COMMIT');
      return result;
    } catch (e) {
      await client.query('ROLLBACK');
      throw e;
    } finally {
      client.release();
    }
  }
  \<close>
\<close>

definition transaction :: "driver \<Rightarrow> (session, 'a) async \<Rightarrow> (world, 'a) async" where
  "transaction drv callback =
     await (pool_connect drv) (\<lambda>client.
       try_catch_finally
         (await (client_command drv BEGIN) (\<lambda>_.
          await (on_client callback) (\<lambda>result.
          await (client_command drv COMMIT) (\<lambda>_.
          return result))))
         (\<lambda>e. await (client_command drv ROLLBACK) (\<lambda>_. throw e))
         client_release)"

section \<open>Responses (lib/utils.js)\<close>

definition res_json :: "response \<Rightarrow> ('z session_scheme, unit) async" where
  "res_json r w =
     (case res w of
        None \<Rightarrow> return () (w\<lparr>res := Some r\<rparr>)
      | Some _ \<Rightarrow> throw (Error ''ERR_HTTP_HEADERS_SENT'') w)"

definition api_body :: "int \<Rightarrow> payload option \<Rightarrow> string \<Rightarrow> response" where
  "api_body st dat msg =
     \<lparr>status = st, success = (200 \<le> st \<and> st < 300), message = msg, data = dat\<rparr>"

definition apiResponse ::
  "int \<Rightarrow> payload option \<Rightarrow> string \<Rightarrow> ('z session_scheme, unit) async"
where
  "apiResponse st dat msg = res_json (api_body st dat msg)"

text \<open>
  \<^verbatim>\<open>errorHandler\<close>: the thrown errors carry no \<^verbatim>\<open>statusCode\<close>, so the status is 500.
  \<^verbatim>\<open>asyncHandler\<close> passes a rejection of the handler to it.
\<close>

definition errorHandler :: "error \<Rightarrow> ('z session_scheme, unit) async" where
  "errorHandler err =
     (case err of Error msg \<Rightarrow>
        apiResponse 500 None (if msg = [] then ''Internal Server Error'' else msg))"

definition asyncHandler :: "(world, unit) async \<Rightarrow> world \<Rightarrow> world" where
  "asyncHandler fn w =
     (case fn w of
        (Inr _, w') \<Rightarrow> w'
      | (Inl e, w') \<Rightarrow> snd (errorHandler e w'))"


section \<open>Contact routes (routes/contacts.js)\<close>

text \<open>
  The handlers run behind \<^verbatim>\<open>authenticate\<close> and \<^verbatim>\<open>validateRequest\<close>: they receive the
  principal \<^verbatim>\<open>req.user.userId\<close> and a typed payload, in which an absent field is \<open>None\<close>.
\<close>

record phone_item =
  item_phone_number :: string
  item_phone_type :: "string option"
  item_is_primary :: "bool option"

record contact_post_body =
  post_name :: string
  post_is_emergency :: "bool option"
  post_relationship :: "string option"
  post_image :: "string option"
  post_phone_numbers :: "phone_item list option"

record contact_put_body =
  put_name :: "string option"
  put_is_emergency :: "bool option"
  put_relationship :: "string option"
  put_image :: "string option"

text \<open>\<^verbatim>\<open>phone.phone_type || 'mobile'\<close> and \<^verbatim>\<open>phone.is_primary || false\<close>\<close>

definition or_mobile :: "string option \<Rightarrow> string" where
  "or_mobile t = (case t of None \<Rightarrow> ''mobile'' | Some s \<Rightarrow> if s = [] then ''mobile'' else s)"

definition or_false :: "bool option \<Rightarrow> bool" where
  "or_false b = (case b of None \<Rightarrow> False | Some v \<Rightarrow> v)"

text \<open>\<^verbatim>\<open>rows[0].x\<close> on an empty result throws a \<^verbatim>\<open>TypeError\<close>.\<close>

definition undefined_row :: error where
  "undefined_row = Error ''Cannot read properties of undefined''"



text \<open>\<^verbatim>\<open>router.post('/', ...)\<close>\<close>

definition contacts_post ::
  "driver \<Rightarrow> schema \<Rightarrow> int \<Rightarrow> contact_post_body \<Rightarrow> (world, unit) async"
where
  "contacts_post drv sch userId body =
     (let user_id = userId;
          name = post_name body;
          is_emergency = or_false (post_is_emergency body);
          relationship = post_relationship body;
          image = post_image body;
          phone_numbers = (case post_phone_numbers body of None \<Rightarrow> [] | Some ps \<Rightarrow> ps)
      in transaction drv
           (await (client_query (insert_contact sch user_id name is_emergency relationship image))
              (\<lambda>contactResult.
            case contactResult of
              [] \<Rightarrow> throw undefined_row
            | contact # _ \<Rightarrow>
                await (if length phone_numbers > 0
                       then for_of phone_numbers (\<lambda>phone.
                              await (client_query
                                       (insert_phone sch (c_id contact) (item_phone_number phone)
                                          (or_mobile (item_phone_type phone))
                                          (or_false (item_is_primary phone))))
                                (\<lambda>_. return ()))
                       else return ()) (\<lambda>_.
                await (client_query (select_phones_by_contact_id (c_id contact))) (\<lambda>phones.
                apiResponse 201
                  (Some (ContactWithPhones \<lparr>cw_contact = contact, cw_phone_numbers = phones\<rparr>))
                  ''Contact created successfully'')))))"

text \<open>\<^verbatim>\<open>router.put('/:id', ...)\<close>\<close>

definition contacts_put :: "int \<Rightarrow> int \<Rightarrow> contact_put_body \<Rightarrow> (world, unit) async" where
  "contacts_put userId i body =
     await (db_query (select_contacts_by_id i)) (\<lambda>contactCheck.
       case contactCheck of
         [] \<Rightarrow> apiResponse 404 None ''Contact not found''
       | row0 # _ \<Rightarrow>
           if c_user_id row0 \<noteq> userId
           then apiResponse 403 None ''Not authorized to update this contact''
           else
             await (db_query (update_contact (put_name body) (put_is_emergency body)
                                (put_relationship body) (put_image body) i)) (\<lambda>result.
             apiResponse 200 (case result of [] \<Rightarrow> None | r # _ \<Rightarrow> Some (ContactRow r))
               ''Contact updated successfully''))"

text \<open>\<^verbatim>\<open>router.delete('/:id', ...)\<close>\<close>

definition contacts_delete :: "driver \<Rightarrow> schema \<Rightarrow> int \<Rightarrow> int \<Rightarrow> (world, unit) async" where
  "contacts_delete drv sch userId i =
     await (db_query (select_contacts_by_id i)) (\<lambda>contactCheck.
       case contactCheck of
         [] \<Rightarrow> apiResponse 404 None ''Contact not found''
       | row0 # _ \<Rightarrow>
           if c_user_id row0 \<noteq> userId
           then apiResponse 403 None ''Not authorized to delete this contact''
           else
             transaction drv
               (await (client_query (delete_phones_by_contact_id i)) (\<lambda>_.
                await (client_query (delete_contact_by_id sch i)) (\<lambda>_.
                apiResponse 204 None ''Contact deleted successfully''))))"

section \<open>Phone number routes (routes/phoneNumbers.js)\<close>

record phone_post_body =
  new_contact_id :: int
  new_phone_number :: string
  new_phone_type :: "string option"
  new_is_primary :: "bool option"



text \<open>
  \<^verbatim>\<open>router.post('/', ...)\<close>. The defaults of the destructuring
  \<^verbatim>\<open>{ phone_type = 'mobile', is_primary = false }\<close> apply to an absent field only.
\<close>

definition phone_numbers_post ::
  "driver \<Rightarrow> schema \<Rightarrow> int \<Rightarrow> phone_post_body \<Rightarrow> (world, unit) async"
where
  "phone_numbers_post drv sch userId body =
     (let contact_id = new_contact_id body;
          phone_number = new_phone_number body;
          phone_type = (case new_phone_type body of None \<Rightarrow> ''mobile'' | Some t \<Rightarrow> t);
          is_primary = (case new_is_primary body of None \<Rightarrow> False | Some b \<Rightarrow> b)
      in await (db_query (select_contacts_by_id contact_id)) (\<lambda>contactCheck.
           case contactCheck of
             [] \<Rightarrow> apiResponse 404 None ''Contact not found''
           | row0 # _ \<Rightarrow>
               if c_user_id row0 \<noteq> userId
               then apiResponse 403 None ''Not authorized to add phone number to this contact''
               else
                 transaction drv
                   (await (if is_primary
                           then client_query (unset_primary contact_id)
                           else return ()) (\<lambda>_.
                    await (client_query
                             (insert_phone sch contact_id phone_number phone_type is_primary))
                      (\<lambda>result.
                    apiResponse 201 (case result of [] \<Rightarrow> None | r # _ \<Rightarrow> Some (PhoneRow r))
                      ''Phone number added successfully'')))))"


section \<open>User routes (routes/users.js)\<close>

text \<open>
  \<^verbatim>\<open>router.delete('/:id', authenticate, ...)\<close>. A user row that is not there makes the
  callback answer 404 and return, so the transaction commits.
\<close>

definition users_delete :: "driver \<Rightarrow> schema \<Rightarrow> int \<Rightarrow> int \<Rightarrow> (world, unit) async" where
  "users_delete drv sch userId i =
     (if i \<noteq> userId
      then apiResponse 403 None ''Not authorized to delete this user''
      else
        transaction drv
          (await (client_query (delete_contacts_by_user_id sch i)) (\<lambda>_.
           await (client_query (delete_user_by_id sch i)) (\<lambda>result.
           if length result = 0
           then apiResponse 404 None ''User not found''
           else apiResponse 204 None ''User deleted successfully''))))"

section \<open>The serverless handlers (pages/api)\<close>

text \<open>
  The same operations as functions \<^verbatim>\<open>handler(req, res)\<close> with one \<^verbatim>\<open>try\<close>/\<^verbatim>\<open>catch\<close> around the
  method switch. They take no principal: the owner of a new contact is \<^verbatim>\<open>req.body.user_id\<close>.
  Their \<^verbatim>\<open>apiResponse(status, data, message)\<close> builds the body that \<^verbatim>\<open>res.status().json()\<close>
  sends.
\<close>

definition internal_server_error :: "error \<Rightarrow> ('z session_scheme, unit) async" where
  "internal_server_error e = res_json (api_body 500 None ''Internal server error'')"


text \<open>
  \<^verbatim>\<open>case 'DELETE'\<close> of the user handler. After the \<^verbatim>\<open>.catch\<close> has answered 404 the handler
  goes on to the 204, which throws because the response is already written.
\<close>

definition api_user_delete :: "driver \<Rightarrow> schema \<Rightarrow> int \<Rightarrow> (world, unit) async" where
  "api_user_delete drv sch i =
     try_catch
       (await
          (try_catch
             (transaction drv
                (await (client_query (delete_contacts_by_user_id sch i)) (\<lambda>_.
                 await (client_query (delete_user_by_id sch i)) (\<lambda>result.
                 if length result = 0 then throw (Error ''User not found'') else return ()))))
             (\<lambda>error.
                if error = Error ''User not found''
                then res_json (api_body 404 None ''User not found'')
                else throw error))
          (\<lambda>_. res_json (api_body 204 None ''User deleted successfully'')))
       internal_server_error"

section \<open>Conditions on a run\<close>

text \<open>
  A driver on which neither \<^verbatim>\<open>pool.connect()\<close> nor a transaction command fails, and a
  world at the start of a request: nothing is written to \<^verbatim>\<open>res\<close> yet and the connection
  has no transaction open.
\<close>

definition no_faults :: "driver \<Rightarrow> bool" where
  "no_faults drv =
     (\<not> connect_fails drv \<and> \<not> command_fails drv BEGIN \<and> \<not> command_fails drv COMMIT
      \<and> \<not> command_fails drv ROLLBACK)"

definition at_request_start :: "world \<Rightarrow> bool" where
  "at_request_start w = (res w = None \<and> open_transaction w = None)"


text \<open>The effect of \<^verbatim>\<open>SET is_primary = false\<close> on the rows of one contact.\<close>

definition clear_primary :: "int \<Rightarrow> phone \<Rightarrow> phone" where
  "clear_primary cid p = (if p_contact_id p = cid then p\<lparr>p_is_primary := False\<rparr> else p)"

text \<open>
  The rows that the loop of inserts in the contact creation adds for the items of
  \<^verbatim>\<open>phone_numbers\<close>, when the sequence of ids stands at \<open>seq\<close>.
\<close>

fun item_rows :: "int \<Rightarrow> int \<Rightarrow> phone_item list \<Rightarrow> phone list" where
  "item_rows cid seq [] = []"
| "item_rows cid seq (phone # rest) =
     \<lparr>p_id = seq, p_contact_id = cid, p_phone_number = item_phone_number phone,
      p_phone_type = or_mobile (item_phone_type phone),
      p_is_primary = or_false (item_is_primary phone)\<rparr> # item_rows cid (seq + 1) rest"

text \<open>The response written, as a list of at most one element.\<close>

definition option_to_list :: "'a option \<Rightarrow> 'a list" where
  "option_to_list x = (case x of None \<Rightarrow> [] | Some v \<Rightarrow> [v])"





section \<open>Sample data\<close>

definition reliable :: driver where
  "reliable = \<lparr>connect_fails = False, command_fails = (\<lambda>_. False)\<rparr>"

definition fresh :: "db \<Rightarrow> world" where
  "fresh d = \<lparr>store = d, res = None, open_transaction = None, checked_out = 0, history = []\<rparr>"

text \<open>
  Users 1 and 2. User 1 owns contact 10 (not an emergency contact, stored first) and
  contact 11 (an emergency contact). Contact 10 has the phone numbers 100 (mobile, not
  primary, stored first) and 101 (home, primary).
\<close>

definition contact10 :: contact where
  "contact10 = \<lparr>c_id = 10, c_user_id = 1, c_name = ''Zed'', c_is_emergency = False,
                 c_relationship = None, c_image = None\<rparr>"

definition contact11 :: contact where
  "contact11 = \<lparr>c_id = 11, c_user_id = 1, c_name = ''Amy'', c_is_emergency = True,
                 c_relationship = Some ''sister'', c_image = None\<rparr>"

definition phone100 :: phone where
  "phone100 = \<lparr>p_id = 100, p_contact_id = 10, p_phone_number = ''555-1'',
                p_phone_type = ''mobile'', p_is_primary = False\<rparr>"

definition phone101 :: phone where
  "phone101 = \<lparr>p_id = 101, p_contact_id = 10, p_phone_number = ''555-2'',
                p_phone_type = ''home'', p_is_primary = True\<rparr>"

definition db0 :: db where
  "db0 = \<lparr>users = [\<lparr>u_id = 1, u_name = ''ann''\<rparr>, \<lparr>u_id = 2, u_name = ''bob''\<rparr>],
          contacts = [contact10, contact11],
          contact_phone_numbers = [phone100, phone101],
          contacts_id_seq = 12,
          contact_phone_numbers_id_seq = 102\<rparr>"

definition no_fk :: schema where
  "no_fk = \<lparr>contacts_user_id_fk = NoConstraint, phone_numbers_contact_id_fk = NoConstraint\<rparr>"

definition plain_fk :: schema where
  "plain_fk = \<lparr>contacts_user_id_fk = NoAction, phone_numbers_contact_id_fk = NoAction\<rparr>"

definition cascade_fk :: schema where
  "cascade_fk = \<lparr>contacts_user_id_fk = Cascade, phone_numbers_contact_id_fk = Cascade\<rparr>"

text \<open>
  Two callbacks on the sample store: one deletes the phone numbers of contact 10 and
  returns, the other deletes them and then throws.
\<close>

definition callback_returns :: "(session, unit) async" where
  "callback_returns = client_query (delete_phones_by_contact_id 10)"

definition callback_throws :: "(session, unit) async" where
  "callback_throws =
     await (client_query (delete_phones_by_contact_id 10))
       (\<lambda>_. throw (Error ''Contact not found''))"

text \<open>The body \<^verbatim>\<open>{name: "x"}\<close> of a contact update.\<close>

definition name_x :: contact_put_body where
  "name_x = \<lparr>put_name = Some ''x'', put_is_emergency = None, put_relationship = None,
              put_image = None\<rparr>"


text \<open>
  \<^verbatim>\<open>POST /api/phone-numbers\<close> with \<^verbatim>\<open>{contact_id: 10, phone_number: "555-3", is_primary: true}\<close>
  and \<^verbatim>\<open>PUT /api/phone-numbers/100\<close> with \<^verbatim>\<open>{is_primary: true}\<close>.
\<close>

definition new_primary :: phone_post_body where
  "new_primary = \<lparr>new_contact_id = 10, new_phone_number = ''555-3'', new_phone_type = None,
                   new_is_primary = Some True\<rparr>"


text \<open>
  The body of scenario A:
  \<^verbatim>\<open>{name: "Alice", phone_numbers: [{phone_number: "555-1", is_primary: true},
  {phone_number: "555-2", is_primary: true}]}\<close>
\<close>

definition alice :: contact_post_body where
  "alice = \<lparr>post_name = ''Alice'', post_is_emergency = None, post_relationship = None,
             post_image = None,
             post_phone_numbers =
               Some [\<lparr>item_phone_number = ''555-1'', item_phone_type = None,
                      item_is_primary = Some True\<rparr>,
                     \<lparr>item_phone_number = ''555-2'', item_phone_type = None,
                      item_is_primary = Some True\<rparr>]\<rparr>"




section \<open>Pagination parameters\<close>





section \<open>The transaction helper\<close>

lemmas tx_defs = transaction_def await_def return_def throw_def try_catch_finally_def
  try_catch_def pool_connect_def client_command_def run_command_def client_release_def
  on_client_def new_events_def

lemmas sample_defs = reliable_def fresh_def db0_def contact10_def contact11_def phone100_def
  phone101_def no_fk_def plain_fk_def cascade_fk_def

text \<open>
  C9: on a connection with no transaction open, \<^verbatim>\<open>db.transaction(callback)\<close> gives back
  every connection it takes, whatever fails: the number of connections checked out is what
  it was, and when \<^verbatim>\<open>pool.connect()\<close> succeeded the events it adds start with the connect
  and end with the release. \<^verbatim>\<open>COMMIT\<close> is issued exactly when the callback was run and
  returned without throwing; \<^verbatim>\<open>ROLLBACK\<close> is issued exactly when a connection was taken and
  the helper throws (a failure of \<^verbatim>\<open>BEGIN\<close>, of the callback or of \<^verbatim>\<open>COMMIT\<close>). A result is
  returned only with the callback's writes committed, it is returned whenever the callback
  returns and no transaction command fails, and after a \<^verbatim>\<open>ROLLBACK\<close> that went through the
  store is the one from before.
\<close>

theorem transaction_commit_rollback_release:
  assumes "open_transaction w = None" and "transaction drv callback w = (outcome, w')"
  shows "checked_out w' = checked_out w
     \<and> history w' = history w @ new_events w w'
     \<and> (connect_fails drv \<longrightarrow> w' = w \<and> (\<exists>e. outcome = Inl e))
     \<and> (\<not> connect_fails drv \<longrightarrow> (\<exists>evs. new_events w w' = Connected # evs @ [Released]))
     \<and> (Issued COMMIT \<in> set (new_events w w') \<longleftrightarrow>
          \<not> connect_fails drv \<and> \<not> command_fails drv BEGIN
          \<and> (\<exists>a s. callback (callback_input w) = (Inr a, s)))
     \<and> (Issued ROLLBACK \<in> set (new_events w w') \<longleftrightarrow>
          \<not> connect_fails drv \<and> (\<exists>e. outcome = Inl e))
     \<and> (\<forall>a. outcome = Inr a \<longrightarrow>
          (\<exists>s. callback (callback_input w) = (Inr a, s) \<and> store w' = store s \<and> res w' = res s
               \<and> open_transaction w' = None))
     \<and> (\<not> connect_fails drv \<and> \<not> command_fails drv BEGIN \<and> \<not> command_fails drv COMMIT \<longrightarrow>
          (\<forall>a s. callback (callback_input w) = (Inr a, s) \<longrightarrow> outcome = Inr a))
     \<and> ((\<exists>e. outcome = Inl e) \<and> \<not> command_fails drv ROLLBACK \<longrightarrow>
          store w' = store w \<and> open_transaction w' = None)"
proof (cases "connect_fails drv")
  case True
  with assms show ?thesis
    by (auto simp: tx_defs)
next
  case connected: False
  show ?thesis
  proof (cases "command_fails drv BEGIN")
    case True
    with assms connected show ?thesis
      by (cases "command_fails drv ROLLBACK") (auto simp: tx_defs Let_def)
  next
    case began: False
    obtain r s where cb: "callback (callback_input w) = (r, s)"
      by (cases "callback (callback_input w)")
    have cb': "callback (callback_input (w\<lparr>checked_out := Suc (checked_out w),
                 history := history w @ [Connected, Issued BEGIN],
                 open_transaction := Some (store w)\<rparr>)) = (r, s)"
      using cb by (simp add: callback_input_def)
    show ?thesis
    proof (cases r)
      case (Inl e)
      with assms connected began cb cb' show ?thesis
        by (cases "command_fails drv ROLLBACK") (auto simp: tx_defs Let_def callback_input_def)
    next
      case (Inr a)
      with assms connected began cb cb' show ?thesis
        by (cases "command_fails drv COMMIT"; cases "command_fails drv ROLLBACK")
           (auto simp: tx_defs Let_def callback_input_def)
    qed
  qed
qed

text \<open>
  Witness for C9 on the sample store: the callback that returns is committed (its delete
  stays), the callback that throws is rolled back (its delete is undone), and both runs
  end with the release.
\<close>

theorem transaction_commit_rollback_release_witness:
  "open_transaction (fresh db0) = None
   \<and> transaction reliable callback_returns (fresh db0)
       = (Inr (), (fresh (db0\<lparr>contact_phone_numbers := []\<rparr>))
                    \<lparr>history := [Connected, Issued BEGIN, Issued COMMIT, Released]\<rparr>)
   \<and> transaction reliable callback_throws (fresh db0)
       = (Inl (Error ''Contact not found''),
          (fresh db0)\<lparr>history := [Connected, Issued BEGIN, Issued ROLLBACK, Released]\<rparr>)
   \<and> checked_out ((fresh db0)\<lparr>history := [Connected, Issued BEGIN, Issued ROLLBACK, Released]\<rparr>)
       = checked_out (fresh db0)
   \<and> Issued ROLLBACK \<in> set (new_events (fresh db0)
         ((fresh db0)\<lparr>history := [Connected, Issued BEGIN, Issued ROLLBACK, Released]\<rparr>))
   \<and> Issued COMMIT \<in> set (new_events (fresh db0)
         ((fresh (db0\<lparr>contact_phone_numbers := []\<rparr>))
                    \<lparr>history := [Connected, Issued BEGIN, Issued COMMIT, Released]\<rparr>))"
proof -
  have idle: "open_transaction (fresh db0) = None"
    by (simp add: fresh_def)
  have ok: "transaction reliable callback_returns (fresh db0)
       = (Inr (), (fresh (db0\<lparr>contact_phone_numbers := []\<rparr>))
                    \<lparr>history := [Connected, Issued BEGIN, Issued COMMIT, Released]\<rparr>)"
    by (simp add: tx_defs sample_defs callback_returns_def client_query_def db_query_def
          callback_input_def delete_phones_by_contact_id_def)
  have bad: "transaction reliable callback_throws (fresh db0)
       = (Inl (Error ''Contact not found''),
          (fresh db0)\<lparr>history := [Connected, Issued BEGIN, Issued ROLLBACK, Released]\<rparr>)"
    by (simp add: tx_defs sample_defs callback_throws_def client_query_def db_query_def
          callback_input_def delete_phones_by_contact_id_def)
  have rel: "\<not> connect_fails reliable"
    by (simp add: reliable_def)
  have run: "callback_returns (callback_input (fresh db0))
               = (Inr (), \<lparr>store = db0\<lparr>contact_phone_numbers := []\<rparr>, res = None\<rparr>)"
    by (simp add: tx_defs sample_defs callback_returns_def client_query_def db_query_def
          callback_input_def delete_phones_by_contact_id_def)
  have beg: "\<not> command_fails reliable BEGIN"
    by (simp add: reliable_def)
  from transaction_commit_rollback_release [OF idle bad] rel
  have a: "checked_out ((fresh db0)\<lparr>history := [Connected, Issued BEGIN, Issued ROLLBACK, Released]\<rparr>)
       = checked_out (fresh db0)"
   and b: "Issued ROLLBACK \<in> set (new_events (fresh db0)
         ((fresh db0)\<lparr>history := [Connected, Issued BEGIN, Issued ROLLBACK, Released]\<rparr>))"
    by blast+
  from transaction_commit_rollback_release [OF idle ok] rel beg run
  have c: "Issued COMMIT \<in> set (new_events (fresh db0)
         ((fresh (db0\<lparr>contact_phone_numbers := []\<rparr>))
                    \<lparr>history := [Connected, Issued BEGIN, Issued COMMIT, Released]\<rparr>))"
    by blast
  show ?thesis
    using idle ok bad a b c by blast
qed

section \<open>Ownership of contacts\<close>

lemma filter_unique_id:
  "distinct (map f xs) \<Longrightarrow> x \<in> set xs \<Longrightarrow> filter (\<lambda>y. f y = f x) xs = [x]"
proof (induction xs)
  case Nil
  then show ?case by simp
next
  case (Cons a xs)
  show ?case
  proof (cases "a = x")
    case True
    have "filter (\<lambda>y. f y = f x) xs = []"
      using Cons.prems True by (force simp: filter_empty_conv image_iff)
    with True show ?thesis by simp
  next
    case False
    with Cons show ?thesis by auto
  qed
qed

lemmas handler_defs = asyncHandler_def errorHandler_def apiResponse_def res_json_def
  client_query_def db_query_def callback_input_def

text \<open>
  C4: when the contact \<open>c\<close> of the store (where ids are unique) belongs to somebody other
  than the principal, \<^verbatim>\<open>PUT /api/contacts/:id\<close> answers 403 and that is all it does: the
  store after the request is the store before it, so \<open>c\<close> is still there with its name.
\<close>

theorem contacts_put_by_other_user_forbidden:
  assumes "c \<in> set (contacts (store w))"
    and "distinct (map c_id (contacts (store w)))"
    and "c_user_id c \<noteq> userId"
    and "res w = None"
  shows "asyncHandler (contacts_put userId (c_id c) body) w
           = w\<lparr>res := Some (api_body 403 None ''Not authorized to update this contact'')\<rparr>
         \<and> store (asyncHandler (contacts_put userId (c_id c) body) w) = store w
         \<and> c \<in> set (contacts (store (asyncHandler (contacts_put userId (c_id c) body) w)))"
proof -
  have "filter (\<lambda>y. c_id y = c_id c) (contacts (store w)) = [c]"
    using assms(1,2) by (simp add: filter_unique_id)
  with assms show ?thesis
    by (simp add: contacts_put_def handler_defs select_contacts_by_id_def await_def return_def)
qed

text \<open>
  Witness for C4: user 2 sends \<^verbatim>\<open>{name: "x"}\<close> for contact 10 of user 1.
\<close>

theorem contacts_put_by_other_user_forbidden_witness:
  "contact10 \<in> set (contacts (store (fresh db0)))
   \<and> distinct (map c_id (contacts (store (fresh db0))))
   \<and> c_user_id contact10 \<noteq> 2
   \<and> res (fresh db0) = None
   \<and> res (asyncHandler (contacts_put 2 10 name_x) (fresh db0))
       = Some \<lparr>status = 403, success = False,
               message = ''Not authorized to update this contact'', data = None\<rparr>
   \<and> store (asyncHandler (contacts_put 2 10 name_x) (fresh db0)) = db0
   \<and> c_name contact10 = ''Zed''"
proof -
  have h1: "contact10 \<in> set (contacts (store (fresh db0)))"
    by (simp add: sample_defs)
  have h2: "distinct (map c_id (contacts (store (fresh db0))))"
    by (simp add: sample_defs)
  have h3: "c_user_id contact10 \<noteq> 2"
    by (simp add: sample_defs)
  have h4: "res (fresh db0) = None"
    by (simp add: sample_defs)
  have i: "c_id contact10 = 10"
    by (simp add: sample_defs)
  show ?thesis
    using contacts_put_by_other_user_forbidden [OF h1 h2 h3 h4, of name_x] h1 h2 h3 h4
    by (simp add: i api_body_def) (simp add: fresh_def contact10_def)
qed

section \<open>The primary flag of phone numbers\<close>






lemma phone_numbers_post_effect:
  assumes check: "filter (\<lambda>c. c_id c = new_contact_id body) (contacts (store w)) = row0 # rest"
    and owner: "c_user_id row0 = userId"
    and start: "at_request_start w"
    and drv: "no_faults drv"
  shows "asyncHandler (phone_numbers_post drv sch userId body) w =
     (let b = (case new_is_primary body of None \<Rightarrow> False | Some v \<Rightarrow> v);
          row = \<lparr>p_id = contact_phone_numbers_id_seq (store w),
                 p_contact_id = new_contact_id body,
                 p_phone_number = new_phone_number body,
                 p_phone_type = (case new_phone_type body of None \<Rightarrow> ''mobile'' | Some t \<Rightarrow> t),
                 p_is_primary = b\<rparr>
      in w\<lparr>store := (store w)\<lparr>contact_phone_numbers :=
                       (if b then map (clear_primary (new_contact_id body))
                                     (contact_phone_numbers (store w))
                        else contact_phone_numbers (store w)) @ [row],
                     contact_phone_numbers_id_seq := contact_phone_numbers_id_seq (store w) + 1\<rparr>,
           res := Some (api_body 201 (Some (PhoneRow row)) ''Phone number added successfully''),
           history := history w @ [Connected, Issued BEGIN, Issued COMMIT, Released]\<rparr>)"
proof -
  have "row0 \<in> set (filter (\<lambda>c. c_id c = new_contact_id body) (contacts (store w)))"
    using check by simp
  then have "row0 \<in> set (contacts (store w))" and "c_id row0 = new_contact_id body"
    by simp_all
  then have fk: "new_contact_id body \<in> c_id ` set (contacts (store w))"
    by (metis imageI)
  have eta: "clear_primary (new_contact_id body)
             = (\<lambda>p. if p_contact_id p = new_contact_id body then p\<lparr>p_is_primary := False\<rparr> else p)"
    by (rule ext) (simp add: clear_primary_def)
  show ?thesis
    using check owner start drv fk
    by (simp add: phone_numbers_post_def handler_defs tx_defs select_contacts_by_id_def
          unset_primary_def insert_phone_def at_request_start_def no_faults_def Let_def eta)
qed






section \<open>Creating a contact with its phone numbers\<close>

lemma for_of_insert_phones:
  fixes s :: "'z session_scheme"
  assumes "phone_numbers_contact_id_fk sch = NoConstraint \<or> cid \<in> c_id ` set (contacts (store s))"
  shows "for_of items (\<lambda>phone.
            await (client_query (insert_phone sch cid (item_phone_number phone)
                                   (or_mobile (item_phone_type phone))
                                   (or_false (item_is_primary phone))))
              (\<lambda>_. return ())) s
         = (Inr (), s\<lparr>store := (store s)\<lparr>contact_phone_numbers :=
                          contact_phone_numbers (store s)
                          @ item_rows cid (contact_phone_numbers_id_seq (store s)) items,
                        contact_phone_numbers_id_seq :=
                          contact_phone_numbers_id_seq (store s) + int (length items)\<rparr>\<rparr>)"
  using assms
proof (induction items arbitrary: s)
  case Nil
  then show ?case by (simp add: return_def)
next
  case (Cons phone rest)
  let ?row = "\<lparr>p_id = contact_phone_numbers_id_seq (store s), p_contact_id = cid,
                p_phone_number = item_phone_number phone,
                p_phone_type = or_mobile (item_phone_type phone),
                p_is_primary = or_false (item_is_primary phone)\<rparr>"
  let ?s1 = "s\<lparr>store := (store s)\<lparr>contact_phone_numbers := contact_phone_numbers (store s) @ [?row],
                 contact_phone_numbers_id_seq := contact_phone_numbers_id_seq (store s) + 1\<rparr>\<rparr>"
  have step: "client_query (insert_phone sch cid (item_phone_number phone)
                 (or_mobile (item_phone_type phone)) (or_false (item_is_primary phone))) s
              = (Inr [?row], ?s1)"
    using Cons.prems
    by (auto simp: client_query_def db_query_def insert_phone_def return_def throw_def Let_def)
  have fk: "phone_numbers_contact_id_fk sch = NoConstraint
            \<or> cid \<in> c_id ` set (contacts (store ?s1))"
    using Cons.prems by simp
  define f :: "phone_item \<Rightarrow> ('z session_scheme, unit) async" where
    "f = (\<lambda>phone. await (client_query (insert_phone sch cid (item_phone_number phone)
                                    (or_mobile (item_phone_type phone))
                                    (or_false (item_is_primary phone))))
                      (\<lambda>_. return ()))"
  have one: "f phone s = (Inr (), ?s1)"
    by (simp add: f_def await_def step return_def)
  have more: "for_of rest f ?s1
        = (Inr (), ?s1\<lparr>store := (store ?s1)\<lparr>contact_phone_numbers :=
                          contact_phone_numbers (store ?s1)
                          @ item_rows cid (contact_phone_numbers_id_seq (store ?s1)) rest,
                        contact_phone_numbers_id_seq :=
                          contact_phone_numbers_id_seq (store ?s1) + int (length rest)\<rparr>\<rparr>)"
    unfolding f_def by (rule Cons.IH [OF fk])
  have "for_of (phone # rest) f s = for_of rest f ?s1"
    by (simp add: await_def one)
  then show ?case
    unfolding more unfolding f_def by simp
qed

lemma await_Inr: "m s = (Inr a, s') \<Longrightarrow> await m f s = f a s'"
  by (simp add: await_def)

lemma transaction_no_faults:
  assumes "no_faults drv" and "open_transaction w = None"
  shows "transaction drv callback w
           = (case callback (callback_input w) of
                (Inr a, s) \<Rightarrow>
                  (Inr a, w\<lparr>store := store s, res := res s,
                             history := history w
                               @ [Connected, Issued BEGIN, Issued COMMIT, Released]\<rparr>)
              | (Inl e, s) \<Rightarrow>
                  (Inl e, w\<lparr>res := res s,
                             history := history w
                               @ [Connected, Issued BEGIN, Issued ROLLBACK, Released]\<rparr>))"
proof -
  obtain r s where cb: "callback (callback_input w) = (r, s)"
    by (cases "callback (callback_input w)")
  then have "callback (callback_input (w\<lparr>checked_out := Suc (checked_out w),
                 history := history w @ [Connected, Issued BEGIN],
                 open_transaction := Some (store w)\<rparr>)) = (r, s)"
    by (simp add: callback_input_def)
  with assms cb show ?thesis
    by (cases r) (simp_all add: tx_defs no_faults_def Let_def)
qed

lemma if_nonempty_for_of:
  "(if length xs > 0 then for_of xs f else return ()) = for_of xs f"
  by (cases xs) simp_all

lemma contacts_post_callback:
  fixes s :: session and nm :: string and em :: bool and rel img :: "string option"
    and items :: "phone_item list" and userId :: int
  assumes fresh_res: "res s = None"
    and fk: "contacts_user_id_fk sch = NoConstraint \<or> userId \<in> u_id ` set (users (store s))"
  defines "c \<equiv> \<lparr>c_id = contacts_id_seq (store s), c_user_id = userId, c_name = nm,
               c_is_emergency = em, c_relationship = rel, c_image = img\<rparr>"
  defines "phones' \<equiv> contact_phone_numbers (store s)
             @ item_rows (contacts_id_seq (store s)) (contact_phone_numbers_id_seq (store s)) items"
  shows "await (client_query (insert_contact sch userId nm em rel img))
           (\<lambda>contactResult.
              case contactResult of
                [] \<Rightarrow> throw undefined_row
              | contact # _ \<Rightarrow>
                  await (if length items > 0
                         then for_of items (\<lambda>phone.
                                await (client_query
                                         (insert_phone sch (c_id contact) (item_phone_number phone)
                                            (or_mobile (item_phone_type phone))
                                            (or_false (item_is_primary phone))))
                                  (\<lambda>_. return ()))
                         else return ()) (\<lambda>_.
                  await (client_query (select_phones_by_contact_id (c_id contact))) (\<lambda>phones.
                  apiResponse 201
                    (Some (ContactWithPhones \<lparr>cw_contact = contact, cw_phone_numbers = phones\<rparr>))
                    ''Contact created successfully''))) s
         = (Inr (),
            \<lparr>store = (store s)\<lparr>contacts := contacts (store s) @ [c],
                         contacts_id_seq := contacts_id_seq (store s) + 1,
                         contact_phone_numbers := phones',
                         contact_phone_numbers_id_seq :=
                           contact_phone_numbers_id_seq (store s) + int (length items)\<rparr>,
             res = Some (api_body 201
                     (Some (ContactWithPhones
                        \<lparr>cw_contact = c,
                         cw_phone_numbers = filter (\<lambda>p. p_contact_id p = c_id c) phones'\<rparr>))
                     ''Contact created successfully'')\<rparr>)"
proof -
  let ?s1 = "s\<lparr>store := (store s)\<lparr>contacts := contacts (store s) @ [c],
                                   contacts_id_seq := contacts_id_seq (store s) + 1\<rparr>\<rparr>"
  have ins: "client_query (insert_contact sch userId nm em rel img) s = (Inr [c], ?s1)"
    using fk
    by (auto simp: client_query_def db_query_def insert_contact_def return_def throw_def Let_def
          c_def)
  have fkp: "phone_numbers_contact_id_fk sch = NoConstraint
             \<or> c_id c \<in> c_id ` set (contacts (store ?s1))"
    by simp
  let ?s2 = "?s1\<lparr>store := (store ?s1)\<lparr>contact_phone_numbers :=
                          contact_phone_numbers (store ?s1)
                          @ item_rows (c_id c) (contact_phone_numbers_id_seq (store ?s1)) items,
                        contact_phone_numbers_id_seq :=
                          contact_phone_numbers_id_seq (store ?s1) + int (length items)\<rparr>\<rparr>"
  have loop: "(if length items > 0
               then for_of items (\<lambda>phone.
                      await (client_query
                               (insert_phone sch (c_id c) (item_phone_number phone)
                                  (or_mobile (item_phone_type phone))
                                  (or_false (item_is_primary phone))))
                        (\<lambda>_. return ()))
               else return ()) ?s1 = (Inr (), ?s2)"
    unfolding if_nonempty_for_of by (rule for_of_insert_phones [OF fkp])
  have sel: "client_query (select_phones_by_contact_id (c_id c)) ?s2
             = (Inr (filter (\<lambda>p. p_contact_id p = c_id c) phones'), ?s2)"
    by (simp add: client_query_def db_query_def select_phones_by_contact_id_def return_def
          phones'_def c_def)
  have resp: "apiResponse 201 dat msg ?s2 = (Inr (), ?s2\<lparr>res := Some (api_body 201 dat msg)\<rparr>)"
    for dat msg
    using fresh_res by (simp add: apiResponse_def res_json_def return_def)
  let ?loop = "if length items > 0
               then for_of items (\<lambda>phone.
                      await (client_query
                               (insert_phone sch (c_id c) (item_phone_number phone)
                                  (or_mobile (item_phone_type phone))
                                  (or_false (item_is_primary phone))))
                        (\<lambda>_. return ()))
               else return ()"
  have a1: "await (client_query (insert_contact sch userId nm em rel img)) F s = F [c] ?s1"
    for F :: "contact list \<Rightarrow> (session, unit) async"
    using ins by (rule await_Inr)
  have a2: "await ?loop G ?s1 = G () ?s2" for G :: "unit \<Rightarrow> (session, unit) async"
    using loop by (rule await_Inr)
  have a3: "await (client_query (select_phones_by_contact_id (c_id c))) H ?s2
            = H (filter (\<lambda>p. p_contact_id p = c_id c) phones') ?s2"
    for H :: "phone list \<Rightarrow> (session, unit) async"
    using sel by (rule await_Inr)
  show ?thesis
    by (simp only: a1 list.case a2 a3 resp) (cases s, simp add: c_def phones'_def)
qed

lemma contacts_post_effect:
  fixes body :: contact_post_body and userId :: int and w :: world
  assumes start: "at_request_start w" and drv: "no_faults drv"
    and fk: "contacts_user_id_fk sch = NoConstraint \<or> userId \<in> u_id ` set (users (store w))"
  defines "items \<equiv> (case post_phone_numbers body of None \<Rightarrow> [] | Some ps \<Rightarrow> ps)"
  defines "c \<equiv> \<lparr>c_id = contacts_id_seq (store w), c_user_id = userId, c_name = post_name body,
               c_is_emergency = or_false (post_is_emergency body),
               c_relationship = post_relationship body, c_image = post_image body\<rparr>"
  defines "phones' \<equiv> contact_phone_numbers (store w)
             @ item_rows (contacts_id_seq (store w)) (contact_phone_numbers_id_seq (store w)) items"
  shows "asyncHandler (contacts_post drv sch userId body) w
         = w\<lparr>store := (store w)\<lparr>contacts := contacts (store w) @ [c],
                         contacts_id_seq := contacts_id_seq (store w) + 1,
                         contact_phone_numbers := phones',
                         contact_phone_numbers_id_seq :=
                           contact_phone_numbers_id_seq (store w) + int (length items)\<rparr>,
             res := Some (api_body 201
                     (Some (ContactWithPhones
                        \<lparr>cw_contact = c,
                         cw_phone_numbers = filter (\<lambda>p. p_contact_id p = c_id c) phones'\<rparr>))
                     ''Contact created successfully''),
             history := history w @ [Connected, Issued BEGIN, Issued COMMIT, Released]\<rparr>"
proof -
  have r: "res (callback_input w) = None" and o: "open_transaction w = None"
    using start by (simp_all add: at_request_start_def callback_input_def)
  have fk': "contacts_user_id_fk sch = NoConstraint
             \<or> userId \<in> u_id ` set (users (store (callback_input w)))"
    using fk by (simp add: callback_input_def)
  note cb = contacts_post_callback [OF r fk', of "post_name body"
      "or_false (post_is_emergency body)" "post_relationship body" "post_image body" items]
  show ?thesis
    unfolding contacts_post_def Let_def items_def [symmetric] asyncHandler_def
    by (subst transaction_no_faults [OF drv o], subst cb)
       (simp add: c_def phones'_def callback_input_def)
qed

lemma length_item_rows: "length (item_rows cid seq items) = length items"
  by (induction items arbitrary: seq) simp_all

lemma numbers_of_item_rows:
  "map p_phone_number (item_rows cid seq items) = map item_phone_number items"
  by (induction items arbitrary: seq) simp_all

lemma types_of_item_rows:
  "map p_phone_type (item_rows cid seq items) = map (\<lambda>i. or_mobile (item_phone_type i)) items"
  by (induction items arbitrary: seq) simp_all

lemma type_of_item_row:
  assumes "k < length items"
  shows "p_phone_type (item_rows cid seq items ! k) = or_mobile (item_phone_type (items ! k))"
proof -
  have "p_phone_type (item_rows cid seq items ! k) = map p_phone_type (item_rows cid seq items) ! k"
    using assms by (simp add: length_item_rows)
  also have "\<dots> = or_mobile (item_phone_type (items ! k))"
    using assms by (simp add: types_of_item_rows)
  finally show ?thesis .
qed

text \<open>
  C10: at the start of a request and with no fault of the connection, a standalone creation
  for a contact of the principal with no \<^verbatim>\<open>phone_type\<close> stores, after the old rows, one row
  with the given number and the type \<^verbatim>\<open>mobile\<close>, and answers with that row; a contact
  creation that the store accepts adds one row per item of \<^verbatim>\<open>phone_numbers\<close>, in order,
  and the row of an item with no \<^verbatim>\<open>phone_type\<close> has the type \<^verbatim>\<open>mobile\<close>.
\<close>

theorem phone_type_defaults_to_mobile:
  assumes start: "at_request_start w" and drv: "no_faults drv"
  shows
   "(filter (\<lambda>c. c_id c = new_contact_id pb) (contacts (store w)) = row0 # rest
       \<and> c_user_id row0 = userId \<and> new_phone_type pb = None \<longrightarrow>
       (\<exists>olds row.
          contact_phone_numbers (store (asyncHandler (phone_numbers_post drv sch userId pb) w))
            = olds @ [row]
          \<and> length olds = length (contact_phone_numbers (store w))
          \<and> p_phone_number row = new_phone_number pb
          \<and> p_phone_type row = ''mobile''
          \<and> res (asyncHandler (phone_numbers_post drv sch userId pb) w)
              = Some (api_body 201 (Some (PhoneRow row)) ''Phone number added successfully'')))
    \<and> (contacts_user_id_fk sch = NoConstraint \<or> userId \<in> u_id ` set (users (store w)) \<longrightarrow>
       (\<exists>new.
          contact_phone_numbers (store (asyncHandler (contacts_post drv sch userId cb) w))
            = contact_phone_numbers (store w) @ new
          \<and> map p_phone_number new
              = map item_phone_number (case post_phone_numbers cb of None \<Rightarrow> [] | Some ps \<Rightarrow> ps)
          \<and> (\<forall>k < length (case post_phone_numbers cb of None \<Rightarrow> [] | Some ps \<Rightarrow> ps).
                item_phone_type ((case post_phone_numbers cb of None \<Rightarrow> [] | Some ps \<Rightarrow> ps) ! k)
                  = None
                \<longrightarrow> p_phone_type (new ! k) = ''mobile'')))"
proof (intro conjI impI)
  assume h: "filter (\<lambda>c. c_id c = new_contact_id pb) (contacts (store w)) = row0 # rest
       \<and> c_user_id row0 = userId \<and> new_phone_type pb = None"
  then have check: "filter (\<lambda>c. c_id c = new_contact_id pb) (contacts (store w)) = row0 # rest"
    and owner: "c_user_id row0 = userId" and absent: "new_phone_type pb = None"
    by simp_all
  let ?w' = "asyncHandler (phone_numbers_post drv sch userId pb) w"
  let ?b = "case new_is_primary pb of None \<Rightarrow> False | Some v \<Rightarrow> v"
  let ?row = "\<lparr>p_id = contact_phone_numbers_id_seq (store w), p_contact_id = new_contact_id pb,
               p_phone_number = new_phone_number pb, p_phone_type = ''mobile'',
               p_is_primary = ?b\<rparr>"
  let ?olds = "if ?b then map (clear_primary (new_contact_id pb)) (contact_phone_numbers (store w))
               else contact_phone_numbers (store w)"
  have "contact_phone_numbers (store ?w') = ?olds @ [?row]"
    and "res ?w' = Some (api_body 201 (Some (PhoneRow ?row)) ''Phone number added successfully'')"
    using phone_numbers_post_effect [OF check owner start drv, of sch] absent
    by (simp_all add: Let_def)
  moreover have "length ?olds = length (contact_phone_numbers (store w))"
    by simp
  moreover have "p_phone_number ?row = new_phone_number pb" and "p_phone_type ?row = ''mobile''"
    by simp_all
  ultimately show "\<exists>olds row.
          contact_phone_numbers (store ?w') = olds @ [row]
          \<and> length olds = length (contact_phone_numbers (store w))
          \<and> p_phone_number row = new_phone_number pb
          \<and> p_phone_type row = ''mobile''
          \<and> res ?w' = Some (api_body 201 (Some (PhoneRow row)) ''Phone number added successfully'')"
    by blast
next
  assume fk: "contacts_user_id_fk sch = NoConstraint \<or> userId \<in> u_id ` set (users (store w))"
  let ?items = "case post_phone_numbers cb of None \<Rightarrow> [] | Some ps \<Rightarrow> ps"
  let ?new = "item_rows (contacts_id_seq (store w)) (contact_phone_numbers_id_seq (store w)) ?items"
  have "contact_phone_numbers (store (asyncHandler (contacts_post drv sch userId cb) w))
          = contact_phone_numbers (store w) @ ?new"
    using contacts_post_effect [OF start drv fk, of cb] by simp
  moreover have "map p_phone_number ?new = map item_phone_number ?items"
    by (rule numbers_of_item_rows)
  moreover have "\<forall>k < length ?items. item_phone_type (?items ! k) = None
                   \<longrightarrow> p_phone_type (?new ! k) = ''mobile''"
    by (simp add: type_of_item_row or_mobile_def)
  ultimately show "\<exists>new.
          contact_phone_numbers (store (asyncHandler (contacts_post drv sch userId cb) w))
            = contact_phone_numbers (store w) @ new
          \<and> map p_phone_number new = map item_phone_number ?items
          \<and> (\<forall>k < length ?items. item_phone_type (?items ! k) = None
                \<longrightarrow> p_phone_type (new ! k) = ''mobile'')"
    by blast
qed

text \<open>
  Witness for C10 on the sample store, as user 1: the number added to contact 10 without a
  type is stored as \<^verbatim>\<open>mobile\<close>, and so is the first number of the new contact Alice.
\<close>

theorem phone_type_defaults_to_mobile_witness:
  "at_request_start (fresh db0) \<and> no_faults reliable
   \<and> filter (\<lambda>c. c_id c = new_contact_id new_primary) (contacts (store (fresh db0))) = contact10 # []
   \<and> c_user_id contact10 = 1 \<and> new_phone_type new_primary = None
   \<and> (contacts_user_id_fk plain_fk = NoConstraint \<or> 1 \<in> u_id ` set (users (store (fresh db0))))
   \<and> p_phone_type (last (contact_phone_numbers (store (asyncHandler
         (phone_numbers_post reliable plain_fk 1 new_primary) (fresh db0))))) = ''mobile''
   \<and> 0 < length (case post_phone_numbers alice of None \<Rightarrow> [] | Some ps \<Rightarrow> ps)
   \<and> item_phone_type ((case post_phone_numbers alice of None \<Rightarrow> [] | Some ps \<Rightarrow> ps) ! 0) = None
   \<and> p_phone_type (contact_phone_numbers (store (asyncHandler
         (contacts_post reliable plain_fk 1 alice) (fresh db0))) ! 2) = ''mobile''"
proof -
  have h0: "at_request_start (fresh db0)"
    by (simp add: at_request_start_def fresh_def)
  have h1: "no_faults reliable"
    by (simp add: no_faults_def reliable_def)
  have h2: "filter (\<lambda>c. c_id c = new_contact_id new_primary) (contacts (store (fresh db0)))
              = contact10 # []"
    by (simp add: sample_defs new_primary_def)
  have h3: "c_user_id contact10 = 1"
    by (simp add: sample_defs)
  have h4: "new_phone_type new_primary = None"
    by (simp add: new_primary_def)
  have h5: "contacts_user_id_fk plain_fk = NoConstraint
            \<or> 1 \<in> u_id ` set (users (store (fresh db0)))"
    by (simp add: sample_defs)
  have h6: "0 < length (case post_phone_numbers alice of None \<Rightarrow> [] | Some ps \<Rightarrow> ps)"
    by (simp add: alice_def)
  have h7: "item_phone_type ((case post_phone_numbers alice of None \<Rightarrow> [] | Some ps \<Rightarrow> ps) ! 0)
              = None"
    by (simp add: alice_def)
  note inst = phone_type_defaults_to_mobile [OF h0 h1, where pb = new_primary
      and ?row0.0 = contact10 and rest = "[]" and userId = 1 and sch = plain_fk and cb = alice]
  from inst h2 h3 h4 obtain olds row where
    "contact_phone_numbers (store (asyncHandler
         (phone_numbers_post reliable plain_fk 1 new_primary) (fresh db0))) = olds @ [row]"
    and "p_phone_type row = ''mobile''"
    by blast
  then have a: "p_phone_type (last (contact_phone_numbers (store (asyncHandler
         (phone_numbers_post reliable plain_fk 1 new_primary) (fresh db0))))) = ''mobile''"
    by simp
  from inst h5 obtain new where
    n1: "contact_phone_numbers (store (asyncHandler
           (contacts_post reliable plain_fk 1 alice) (fresh db0)))
         = contact_phone_numbers (store (fresh db0)) @ new"
    and n2: "\<forall>k < length (case post_phone_numbers alice of None \<Rightarrow> [] | Some ps \<Rightarrow> ps).
                item_phone_type ((case post_phone_numbers alice of None \<Rightarrow> [] | Some ps \<Rightarrow> ps) ! k)
                  = None
                \<longrightarrow> p_phone_type (new ! k) = ''mobile''"
    by blast
  from n2 h6 h7 have "p_phone_type (new ! 0) = ''mobile''"
    by blast
  moreover have "length (contact_phone_numbers (store (fresh db0))) = 2"
    by (simp add: sample_defs)
  ultimately have b: "p_phone_type (contact_phone_numbers (store (asyncHandler
         (contacts_post reliable plain_fk 1 alice) (fresh db0))) ! 2) = ''mobile''"
    unfolding n1 by (simp add: nth_append)
  show ?thesis
    using h0 h1 h2 h3 h4 h5 h6 h7 a b by blast
qed



section \<open>Deleting a user\<close>

lemmas delete_defs = delete_contacts_by_user_id_def delete_contact_by_id_def
  delete_contacts_where_def delete_user_by_id_def delete_phones_by_contact_id_def

text \<open>
  C2, the code at the failing input: user 1 of the sample store, who owns contact 10 with
  the phone numbers 100 and 101, deletes the account. With no foreign key on the phone
  numbers the transaction commits, the answer is 204, the user and the contacts are gone
  and both phone numbers are still stored, pointing at contact 10; the serverless handler
  leaves the same store. With a foreign key that is not declared \<^verbatim>\<open>ON DELETE CASCADE\<close> the
  delete of the contacts is rejected, the answer is 500 and nothing is deleted. Only with
  \<^verbatim>\<open>ON DELETE CASCADE\<close> do the phone numbers go. Deleting contact 10 through its own route
  removes its phone numbers under any of these.
\<close>

theorem users_delete_leaves_phone_numbers:
  "store (asyncHandler (users_delete reliable no_fk 1 1) (fresh db0))
     = db0\<lparr>users := [\<lparr>u_id = 2, u_name = ''bob''\<rparr>], contacts := []\<rparr>
   \<and> contact_phone_numbers (store (asyncHandler (users_delete reliable no_fk 1 1) (fresh db0)))
     = [phone100, phone101]
   \<and> p_contact_id phone100 = c_id contact10 \<and> c_user_id contact10 = 1
   \<and> map status (option_to_list (res (asyncHandler (users_delete reliable no_fk 1 1) (fresh db0))))
     = [204]
   \<and> store (asyncHandler (users_delete reliable plain_fk 1 1) (fresh db0)) = db0
   \<and> map status (option_to_list (res (asyncHandler (users_delete reliable plain_fk 1 1)
         (fresh db0)))) = [500]
   \<and> store (snd (api_user_delete reliable no_fk 1 (fresh db0)))
     = db0\<lparr>users := [\<lparr>u_id = 2, u_name = ''bob''\<rparr>], contacts := []\<rparr>
   \<and> contact_phone_numbers (store (asyncHandler (users_delete reliable cascade_fk 1 1)
         (fresh db0))) = []
   \<and> contact_phone_numbers (store (asyncHandler (contacts_delete reliable no_fk 1 10) (fresh db0)))
     = []"
  by code_simp

lemma delete_user_after_contacts:
  assumes "i \<in> u_id ` set (users d)" and "\<forall>c \<in> set (contacts d). c_user_id c \<noteq> i"
  shows "delete_user_by_id sch i d
           = (Inr (map u_id (filter (\<lambda>u. u_id u = i) (users d))),
              d\<lparr>users := filter (\<lambda>u. u_id u \<noteq> i) (users d)\<rparr>)
         \<and> filter (\<lambda>u. u_id u = i) (users d) \<noteq> []"
proof -
  have ne: "filter (\<lambda>u. u_id u = i) (users d) \<noteq> []"
    using assms(1) by (auto simp: filter_empty_conv)
  have keep: "filter (\<lambda>c. c_user_id c \<noteq> i) (contacts d) = contacts d"
    using assms(2) by (simp add: filter_id_conv)
  have none: "filter (\<lambda>c. c_user_id c = i) (contacts d) = []"
    using assms(2) by (simp add: filter_empty_conv)
  show ?thesis
    using ne assms(2)
    by (cases "contacts_user_id_fk sch"; cases "phone_numbers_contact_id_fk sch")
       (simp_all add: delete_user_by_id_def delete_contacts_where_def return_def throw_def
          Let_def keep none)
qed

text \<open>
  Only under a foreign key declared \<^verbatim>\<open>ON DELETE CASCADE\<close>, which the handler does not
  control, does the deletion of an existing user remove the phone numbers of the user's
  contacts as well.
\<close>

lemma users_delete_with_cascade:
  assumes start: "at_request_start w" and drv: "no_faults drv"
    and cascade: "phone_numbers_contact_id_fk sch = Cascade"
    and user: "i \<in> u_id ` set (users (store w))"
  shows "store (asyncHandler (users_delete drv sch i i) w)
          = (store w)\<lparr>users := filter (\<lambda>u. u_id u \<noteq> i) (users (store w)),
                       contacts := filter (\<lambda>c. c_user_id c \<noteq> i) (contacts (store w)),
                       contact_phone_numbers :=
                         filter (\<lambda>p. p_contact_id p
                                   \<notin> set (map c_id (filter (\<lambda>c. c_user_id c = i)
                                                       (contacts (store w)))))
                                (contact_phone_numbers (store w))\<rparr>"
proof -
  let ?d = "store w"
  let ?d1 = "?d\<lparr>contacts := filter (\<lambda>c. \<not> c_user_id c = i) (contacts ?d),
                 contact_phone_numbers :=
                   filter (\<lambda>p. p_contact_id p
                             \<notin> set (map c_id (filter (\<lambda>c. c_user_id c = i) (contacts ?d))))
                          (contact_phone_numbers ?d)\<rparr>"
  have s1: "delete_contacts_by_user_id sch i ?d
              = (Inr (map c_id (filter (\<lambda>c. c_user_id c = i) (contacts ?d))), ?d1)"
    using cascade by (simp add: delete_contacts_by_user_id_def delete_contacts_where_def
          return_def Let_def)
  have u1: "i \<in> u_id ` set (users ?d1)" using user by simp
  have c1: "\<forall>c \<in> set (contacts ?d1). c_user_id c \<noteq> i" by simp
  note s2 = delete_user_after_contacts [OF u1 c1, of sch]
  have r: "res w = None" and o: "open_transaction w = None"
    using start by (simp_all add: at_request_start_def)
  show ?thesis
    using s2 r
    by (simp add: users_delete_def asyncHandler_def transaction_no_faults [OF drv o]
          await_def client_query_def db_query_def callback_input_def s1 apiResponse_def
          res_json_def return_def)
qed

section \<open>Reading contacts\<close>








section \<open>Pages of contacts\<close>



text \<open>\<^verbatim>\<open>Math.ceil(totalCount / limit)\<close> in integer arithmetic.\<close>

lemma ceiling_pages:
  fixes t l :: int
  shows "\<lceil>real_of_int t / real_of_int l\<rceil> = - ((- t) div l)"
proof -
  have "\<lceil>real_of_int t / real_of_int l\<rceil> = - \<lfloor>- (real_of_int t / real_of_int l)\<rfloor>"
    by (simp add: ceiling_def)
  also have "- (real_of_int t / real_of_int l) = real_of_int (- t) / real_of_int l"
    by simp
  also have "\<lfloor>real_of_int (- t) / real_of_int l\<rfloor> = (- t) div l"
    by (rule floor_divide_of_int_eq)
  finally show ?thesis .
qed






section \<open>The order of a listing\<close>







end
